theory Spec2Isabelle
  imports Main "HOL-Library.Word"
begin

unbundle bit_operations_syntax

section \<open>Go strings: byte sequences and the functions of package strings that the code calls\<close>

text \<open>
  A Go \<open>string\<close> is a sequence of bytes; \<open>len\<close>, indexing and slicing count bytes.
  It is modelled as \<open>string\<close> (a \<open>char list\<close>, one \<open>char\<close> per byte).
\<close>

definition HasPrefix :: "string \<Rightarrow> string \<Rightarrow> bool" where
  "HasPrefix s pre \<longleftrightarrow> length pre \<le> length s \<and> take (length pre) s = pre"

definition HasSuffix :: "string \<Rightarrow> string \<Rightarrow> bool" where
  "HasSuffix s suf \<longleftrightarrow> length suf \<le> length s \<and> drop (length s - length suf) s = suf"

definition TrimPrefix :: "string \<Rightarrow> string \<Rightarrow> string" where
  "TrimPrefix s pre = (if HasPrefix s pre then drop (length pre) s else s)"

text \<open>\<open>strings.Index\<close>: the byte offset of the first occurrence, \<open>None\<close> for Go's \<open>-1\<close>.\<close>

fun IndexFrom :: "string \<Rightarrow> string \<Rightarrow> nat \<Rightarrow> nat option" where
  "IndexFrom [] sep i = (if sep = [] then Some i else None)"
| "IndexFrom (c # cs) sep i =
     (if HasPrefix (c # cs) sep then Some i else IndexFrom cs sep (Suc i))"

definition Index :: "string \<Rightarrow> string \<Rightarrow> nat option" where
  "Index s sep = IndexFrom s sep 0"

definition Contains :: "string \<Rightarrow> string \<Rightarrow> bool" where
  "Contains s sub \<longleftrightarrow> Index s sub \<noteq> None"

lemma IndexFrom_bounds: "IndexFrom s sep i = Some m \<Longrightarrow> i \<le> m \<and> m \<le> i + length s"
  by (induction s sep i rule: IndexFrom.induct) (auto split: if_splits)

lemma Index_le_length: "Index s sep = Some m \<Longrightarrow> m \<le> length s"
  using IndexFrom_bounds [of s sep 0 m] by (simp add: Index_def)

text \<open>
  \<open>strings.Split(s, sep)\<close> for a non-empty separator: cut at the first occurrence,
  continue after it. Every separator in the program is a non-empty literal; for the
  empty separator (where Go explodes the string into characters) the model returns the
  string uncut.
\<close>

function Split :: "string \<Rightarrow> string \<Rightarrow> string list" where
  "Split s sep =
     (if sep = [] then [s]
      else case Index s sep of
             None \<Rightarrow> [s]
           | Some m \<Rightarrow> take m s # Split (drop (m + length sep) s) sep)"
  by pat_completeness auto
termination
proof (relation "measure (\<lambda>(s, sep). length s)")
  show "wf (measure (\<lambda>(s, sep). length s))" by simp
next
  fix s sep :: string and m :: nat
  assume ne: "sep \<noteq> []" and ix: "Index s sep = Some m"
  have "m \<le> length s" using ix by (rule Index_le_length)
  moreover have "s \<noteq> []"
    using ne ix by (cases s) (auto simp: Index_def)
  ultimately show "((drop (m + length sep) s, sep), (s, sep)) \<in> measure (\<lambda>(s, sep). length s)"
    using ne by (cases sep) auto
qed

declare Split.simps [simp del]

text \<open>\<open>strings.SplitN(s, sep, 2)\<close>: at most one cut, at the first occurrence.\<close>

definition SplitN2 :: "string \<Rightarrow> string \<Rightarrow> string list" where
  "SplitN2 s sep =
     (case Index s sep of
        None \<Rightarrow> [s]
      | Some m \<Rightarrow> [take m s, drop (m + length sep) s])"

fun Join :: "string list \<Rightarrow> string \<Rightarrow> string" where
  "Join [] sep = []"
| "Join [x] sep = x"
| "Join (x # y # ys) sep = x @ sep @ Join (y # ys) sep"

section \<open>Go path/filepath on a Unix host (separator \<open>/\<close>, \<open>ToSlash\<close> is the identity)\<close>

definition Base :: "string \<Rightarrow> string" where
  "Base path =
     (if path = [] then ''.''
      else let stripped = rev (dropWhile (\<lambda>c. c = CHR ''/'') (rev path));
               elem = rev (takeWhile (\<lambda>c. c \<noteq> CHR ''/'') (rev stripped))
           in if elem = [] then ''/'' else elem)"

definition Ext :: "string \<Rightarrow> string" where
  "Ext path =
     (let tail = takeWhile (\<lambda>c. c \<noteq> CHR ''/'') (rev path)
      in if CHR ''.'' \<in> set tail
         then CHR ''.'' # rev (takeWhile (\<lambda>c. c \<noteq> CHR ''.'') tail)
         else [])"

text \<open>
  \<open>strings.ToLower\<close>, as far as membership in the ASCII extension tables can see it:
  \<open>A\<close>..\<open>Z\<close> are lowered, and so are the two non-ASCII letters whose lower case is
  ASCII (U+0130 to \<open>i\<close>, U+212A to \<open>k\<close>); every other byte is kept.
\<close>

definition lowerByte :: "char \<Rightarrow> char" where
  "lowerByte c =
     (case map_of (zip ''ABCDEFGHIJKLMNOPQRSTUVWXYZ'' ''abcdefghijklmnopqrstuvwxyz'') c of
        Some l \<Rightarrow> l
      | None \<Rightarrow> c)"

fun ToLower :: "string \<Rightarrow> string" where
  "ToLower [] = []"
| "ToLower (a # b # c # cs) =
     (if of_char a = (0xE2 :: nat) \<and> of_char b = (0x84 :: nat) \<and> of_char c = (0xAA :: nat)
      then CHR ''k'' # ToLower cs
      else if of_char a = (0xC4 :: nat) \<and> of_char b = (0xB0 :: nat)
      then CHR ''i'' # ToLower (c # cs)
      else lowerByte a # ToLower (b # c # cs))"
| "ToLower (a # b # cs) =
     (if of_char a = (0xC4 :: nat) \<and> of_char b = (0xB0 :: nat)
      then CHR ''i'' # ToLower cs
      else lowerByte a # ToLower (b # cs))"
| "ToLower (a # cs) = lowerByte a # ToLower cs"

section \<open>The watcher: glob patterns, registrations and exclusion (internal/watcher/watcher.go)\<close>

subsection \<open>matchesSimpleGlob and matchesGlob\<close>

text \<open>
  \<open>filepath.Match\<close> is the host library's single-level glob; the model takes it as the
  parameter \<open>fpMatch\<close>, whose result \<open>None\<close> is the error \<open>ErrBadPattern\<close>.
\<close>

type_synonym fp_match = "string \<Rightarrow> string \<Rightarrow> bool option"

text \<open>
  The block of \<open>matchesSimpleGlob\<close> for a pattern that contains \<open>**\<close> but does not start
  with \<open>**/\<close>. \<open>None\<close>: the block returned nothing (three or more parts) and control
  falls through to the checks below it.
\<close>

definition doubleStarCase :: "string \<Rightarrow> string \<Rightarrow> bool option" where
  "doubleStarCase pattern path =
     (case Split pattern ''**'' of
        [] \<Rightarrow> None
      | p0 # ps \<Rightarrow>
          if \<not> HasPrefix path p0 \<and> p0 \<noteq> [] then Some False
          else if length (p0 # ps) = 2 \<and> p0 = [] then Some (HasSuffix path (ps ! 0))
          else let remaining = TrimPrefix path p0
               in if length (p0 # ps) = 2 then Some (HasSuffix remaining (ps ! 0))
                  else None)"

definition matchesSimpleGlob :: "fp_match \<Rightarrow> string \<Rightarrow> string \<Rightarrow> bool" where
  "matchesSimpleGlob fpMatch pattern path =
     (if HasPrefix pattern ''**/'' then
        (let rest = TrimPrefix pattern ''**/'' in
         if HasPrefix rest ''*.'' then HasSuffix path (TrimPrefix rest ''*'')
         else if HasSuffix path rest then True
         else let pathComponents = Split path ''/''
              in list_ex (\<lambda>i. HasSuffix (Join (drop i pathComponents) ''/'') rest)
                   [0 ..< length pathComponents])
      else
        (case (if Contains pattern ''**'' then doubleStarCase pattern path else None) of
           Some b \<Rightarrow> b
         | None \<Rightarrow>
             if HasPrefix pattern ''*.'' then HasSuffix path (TrimPrefix pattern ''*'')
             else (case fpMatch pattern path of None \<Rightarrow> False | Some matched \<Rightarrow> matched)))"

definition matchesGlob :: "fp_match \<Rightarrow> string \<Rightarrow> string \<Rightarrow> bool" where
  "matchesGlob fpMatch pattern path =
     (if Contains pattern ''{'' \<and> Contains pattern ''}'' then
        (case SplitN2 pattern ''{'' of
           [prefix, rest] \<Rightarrow>
             (case SplitN2 rest ''}'' of
                [exts, suffix] \<Rightarrow>
                  list_ex (\<lambda>ext. matchesSimpleGlob fpMatch (prefix @ ext @ suffix) path)
                    (Split exts '','')
              | _ \<Rightarrow> matchesSimpleGlob fpMatch pattern path)
         | _ \<Rightarrow> matchesSimpleGlob fpMatch pattern path)
      else matchesSimpleGlob fpMatch pattern path)"

subsection \<open>matchesPattern and isPathWatched\<close>

text \<open>
  Modelled from the spec: the types \<open>GlobPattern\<close> and \<open>FileSystemWatcher\<close> of package
  protocol, which is not among the sources. A \<open>GlobSpec\<close> is an optional base path and a
  pattern text; \<open>AsPattern\<close> either fails (\<open>None\<close>) or yields both, the base path empty
  when there is none. A registration is a pattern and an optional event mask
  (\<open>Kind\<close>, a nil pointer when absent).
\<close>

record PatternInfo =
  BasePath :: string
  Pattern :: string

type_synonym GlobPattern = "PatternInfo option"

type_synonym WatchKind = "32 word"

definition WatchCreate :: WatchKind where "WatchCreate = 1"
definition WatchChange :: WatchKind where "WatchChange = 2"
definition WatchDelete :: WatchKind where "WatchDelete = 4"

record FileSystemWatcher =
  GlobPattern :: GlobPattern
  Kind :: "WatchKind option"

text \<open>
  \<open>filepath.Rel\<close> is the parameter \<open>fpRel\<close> (\<open>None\<close>: it returned an error);
  \<open>gitIgnore\<close> is the compiled ignore matcher, absent when no \<open>.gitignore\<close> was loaded.
\<close>

type_synonym fp_rel = "string \<Rightarrow> string \<Rightarrow> string option"

record WorkspaceWatcher =
  workspacePath :: string
  gitIgnore :: "(string \<Rightarrow> bool) option"
  registrations :: "FileSystemWatcher list"

definition matchesPattern :: "fp_match \<Rightarrow> fp_rel \<Rightarrow> string \<Rightarrow> GlobPattern \<Rightarrow> bool" where
  "matchesPattern fpMatch fpRel path pattern =
     (case pattern of
        None \<Rightarrow> False
      | Some patternInfo \<Rightarrow>
          let basePath = BasePath patternInfo; patternText = Pattern patternInfo
          in if basePath = [] then
               (let fullPathMatch = matchesGlob fpMatch patternText path;
                    baseNameMatch = matchesGlob fpMatch patternText (Base path)
                in fullPathMatch \<or> baseNameMatch)
             else
               (case fpRel (TrimPrefix basePath ''file://'') path of
                  None \<Rightarrow> False
                | Some relPath \<Rightarrow> matchesGlob fpMatch patternText relPath))"

definition allKinds :: WatchKind where
  "allKinds = WatchChange OR WatchCreate OR WatchDelete"

fun firstMatch :: "fp_match \<Rightarrow> fp_rel \<Rightarrow> string \<Rightarrow> FileSystemWatcher list \<Rightarrow> bool \<times> WatchKind" where
  "firstMatch fpMatch fpRel path [] = (False, 0)"
| "firstMatch fpMatch fpRel path (reg # regs) =
     (if matchesPattern fpMatch fpRel path (GlobPattern reg)
      then (True, case Kind reg of None \<Rightarrow> allKinds | Some kind \<Rightarrow> kind)
      else firstMatch fpMatch fpRel path regs)"

definition isPathWatched :: "fp_match \<Rightarrow> fp_rel \<Rightarrow> WorkspaceWatcher \<Rightarrow> string \<Rightarrow> bool \<times> WatchKind" where
  "isPathWatched fpMatch fpRel w path =
     (if length (registrations w) = 0 then (True, allKinds)
      else firstMatch fpMatch fpRel path (registrations w))"

subsection \<open>shouldExcludeDir and shouldExcludeFile\<close>

definition excludedDirNames :: "string \<Rightarrow> bool" where
  "excludedDirNames n \<longleftrightarrow>
     n \<in> set [''.git'', ''node_modules'', ''dist'', ''build'', ''out'', ''bin'', ''.idea'',
               ''.vscode'', ''.cache'', ''coverage'', ''target'', ''vendor'']"

definition excludedFileExtensions :: "string \<Rightarrow> bool" where
  "excludedFileExtensions e \<longleftrightarrow>
     e \<in> set [''.swp'', ''.swo'', ''.tmp'', ''.temp'', ''.bak'', ''.log'', ''.o'', ''.so'',
               ''.dylib'', ''.dll'', ''.a'', ''.exe'', ''.lock'']"

definition largeBinaryExtensions :: "string \<Rightarrow> bool" where
  "largeBinaryExtensions e \<longleftrightarrow>
     e \<in> set [''.png'', ''.jpg'', ''.jpeg'', ''.gif'', ''.bmp'', ''.ico'', ''.zip'', ''.tar'',
               ''.gz'', ''.rar'', ''.7z'', ''.pdf'', ''.mp3'', ''.mp4'', ''.mov'', ''.wav'',
               ''.wasm'']"

definition maxFileSize :: int where
  "maxFileSize = 5 * 1024 * 1024"

definition gitIgnored :: "fp_rel \<Rightarrow> WorkspaceWatcher \<Rightarrow> string \<Rightarrow> bool" where
  "gitIgnored fpRel w p =
     (case fpRel (workspacePath w) p of
        None \<Rightarrow> False
      | Some relPath \<Rightarrow> (case gitIgnore w of None \<Rightarrow> False | Some m \<Rightarrow> m relPath))"

definition shouldExcludeDir :: "fp_rel \<Rightarrow> WorkspaceWatcher \<Rightarrow> string \<Rightarrow> bool" where
  "shouldExcludeDir fpRel w dirPath =
     (if gitIgnored fpRel w dirPath then True
      else let dirName = Base dirPath
           in if HasPrefix dirName ''.'' \<and> dirName \<noteq> ''.'' \<and> dirName \<noteq> ''..'' then True
              else if excludedDirNames dirName then True
              else False)"

text \<open>\<open>os.Stat\<close> is the parameter \<open>stat\<close>: the file's size, or \<open>None\<close> when it fails.\<close>

definition shouldExcludeFile :: "fp_rel \<Rightarrow> (string \<Rightarrow> int option) \<Rightarrow> WorkspaceWatcher \<Rightarrow> string \<Rightarrow> bool" where
  "shouldExcludeFile fpRel stat w filePath =
     (if gitIgnored fpRel w filePath then True
      else let fileName = Base filePath
           in if HasPrefix fileName ''.'' \<and> fileName \<noteq> ''.'' \<and> fileName \<noteq> ''..'' then True
              else let ext = ToLower (Ext filePath)
                   in if excludedFileExtensions ext \<or> largeBinaryExtensions ext then True
                      else if HasSuffix filePath ''~'' then True
                      else (case stat filePath of
                              None \<Rightarrow> True
                            | Some fileSize \<Rightarrow> if fileSize > maxFileSize then True else False))"

text \<open>
  A sample environment for concrete runs: no \<open>.gitignore\<close> was loaded, no registrations,
  \<open>filepath.Rel\<close> fails and every file is 120 bytes long.
\<close>

definition relFails :: fp_rel where
  "relFails basePath targetPath = None"

definition statSmall :: "string \<Rightarrow> int option" where
  "statSmall p = Some 120"

definition plainWatcher :: WorkspaceWatcher where
  "plainWatcher = \<lparr>workspacePath = ''/ws'', gitIgnore = None, registrations = []\<rparr>"

definition goWatcher :: WorkspaceWatcher where
  "goWatcher = \<lparr>workspacePath = ''/ws'', gitIgnore = None,
     registrations =
       [\<lparr>GlobPattern = Some \<lparr>BasePath = [], Pattern = ''*.mod''\<rparr>, Kind = Some WatchDelete\<rparr>,
        \<lparr>GlobPattern = Some \<lparr>BasePath = [], Pattern = ''**/*.go''\<rparr>, Kind = None\<rparr>,
        \<lparr>GlobPattern = Some \<lparr>BasePath = [], Pattern = ''*.go''\<rparr>, Kind = Some WatchCreate\<rparr>]\<rparr>"


section \<open>Protocol types (package protocol) as the tools read them\<close>

text \<open>
  Modelled from the spec: the types of package protocol, which is not among the sources
  (\<open>SymbolNode\<close>: name, kind, range, ordered children). Lines and characters are
  \<open>uint32\<close>. A document-symbol result is either a hierarchical \<open>DocumentSymbol\<close> or a
  flat \<open>SymbolInformation\<close>; \<open>GetRange\<close> reads the range of either.
\<close>

type_synonym uint32 = "32 word"

record Position =
  Line :: uint32
  Character :: uint32

record Range =
  Start :: Position
  End :: Position

record Location =
  URI :: string
  LocRange :: Range

datatype DocumentSymbol =
  DocumentSymbol (Name: string) (SymKind: nat) (SymRange: Range) (Children: "DocumentSymbol list")

record SymbolInformation =
  InfoName :: string
  InfoKind :: nat
  InfoLocation :: Location
  ContainerName :: string

datatype DocumentSymbolResult = DocSym DocumentSymbol | SymInfo SymbolInformation

fun GetRange :: "DocumentSymbolResult \<Rightarrow> Range" where
  "GetRange (DocSym ds) = SymRange ds"
| "GetRange (SymInfo si) = LocRange (InfoLocation si)"

fun GetName :: "DocumentSymbolResult \<Rightarrow> string" where
  "GetName (DocSym ds) = Name ds"
| "GetName (SymInfo si) = InfoName si"

text \<open>The number of symbols in a tree, the measure of the recursive searches.\<close>

fun symbolCount :: "DocumentSymbol \<Rightarrow> nat" where
  "symbolCount (DocumentSymbol n k r cs) = Suc (sum_list (map symbolCount cs))"

fun resultCount :: "DocumentSymbolResult \<Rightarrow> nat" where
  "resultCount (DocSym ds) = symbolCount ds"
| "resultCount (SymInfo si) = 1"

lemma resultCount_children:
  "sum_list (map resultCount (map DocSym (Children ds))) < symbolCount ds"
  by (cases ds) (simp add: comp_def)

lemma symbolCount_pos: "0 < symbolCount ds"
  by (cases ds) simp

lemma resultCount_pos: "0 < resultCount r"
proof (cases r)
  case (DocSym ds)
  then show ?thesis by (cases ds) simp
next
  case (SymInfo si)
  then show ?thesis by simp
qed

section \<open>Errors and the Go operations that can panic\<close>

text \<open>
  Every error return of the tools is a constructor; \<open>Panic\<close> is a Go run-time panic
  (index or slice bounds out of range).
\<close>

datatype error =
    InvalidRange int int nat
  | FailedToGetDocumentSymbols
  | FailedToProcessDocumentSymbols
  | FailedToUnescapeURI
  | FailedToReadFile
  | LineNumberOutOfRange
  | EndLineOutOfRange
  | SymbolNotFound
  | FailedToFetchSymbol
  | FailedToParseResults
  | CouldNotOpenFile
  | ClientError
  | Panic

definition NL :: string where
  "NL = [CHR 0x0A]"

text \<open>\<open>xs[i]\<close> and \<open>s[a:b]\<close> with Go's bounds checks.\<close>

definition index :: "'a list \<Rightarrow> int \<Rightarrow> error + 'a" where
  "index xs i = (if 0 \<le> i \<and> i < int (length xs) then Inr (xs ! nat i) else Inl Panic)"

definition slice :: "'a list \<Rightarrow> int \<Rightarrow> int \<Rightarrow> error + 'a list" where
  "slice xs a b =
     (if 0 \<le> a \<and> a \<le> b \<and> b \<le> int (length xs)
      then Inr (take (nat b - nat a) (drop (nat a) xs))
      else Inl Panic)"

definition andThen :: "error + 'a \<Rightarrow> ('a \<Rightarrow> error + 'b) \<Rightarrow> error + 'b" where
  "andThen r f = (case r of Inl e \<Rightarrow> Inl e | Inr x \<Rightarrow> f x)"

fun collect :: "(error + 'a) list \<Rightarrow> error + 'a list" where
  "collect [] = Inr []"
| "collect (r # rs) = andThen r (\<lambda>x. andThen (collect rs) (\<lambda>xs. Inr (x # xs)))"

section \<open>Scope resolution (internal/tools)\<close>

subsection \<open>getTextForRange\<close>

text \<open>
  \<open>int(x)\<close> of a \<open>uint32\<close> is \<open>uint x\<close> (a 64-bit \<open>int\<close> holds every \<open>uint32\<close>); the
  tests against zero stay as the source has them.
\<close>

definition getTextForRange :: "string \<Rightarrow> Range \<Rightarrow> error + string" where
  "getTextForRange fileContent targetRange =
     (let lines = Split fileContent NL;
          startLine = uint (Line (Start targetRange));
          endLine = uint (Line (End targetRange));
          startChar = uint (Character (Start targetRange));
          endChar = uint (Character (End targetRange))
      in if startLine < 0 \<or> startLine \<ge> int (length lines) \<or> endLine < 0 \<or>
            endLine \<ge> int (length lines) \<or> startLine > endLine
         then Inl (InvalidRange (startLine + 1) (endLine + 1) (length lines))
         else if startLine = endLine then
           andThen (index lines startLine) (\<lambda>line.
             let startChar1 = (if startChar > int (length line) then int (length line) else startChar);
                 endChar1 = (if endChar > int (length line) then int (length line) else endChar);
                 startChar2 = (if startChar1 < 0 then 0 else startChar1);
                 endChar2 = (if endChar1 < 0 then 0 else endChar1);
                 startChar3 = (if startChar2 > endChar2 then endChar2 else startChar2)
             in slice line startChar3 endChar2)
         else
           andThen (index lines startLine) (\<lambda>firstLine.
             let startChar1 = (if startChar > int (length firstLine) then int (length firstLine)
                               else startChar);
                 startChar2 = (if startChar1 < 0 then 0 else startChar1)
             in andThen (slice firstLine startChar2 (int (length firstLine))) (\<lambda>head.
                andThen (collect (map (\<lambda>i. index lines i) [startLine + 1 .. endLine - 1])) (\<lambda>middle.
                andThen (index lines endLine) (\<lambda>lastLine.
                  let endChar1 = (if endChar > int (length lastLine) then int (length lastLine)
                                  else endChar);
                      endChar2 = (if endChar1 < 0 then 0 else endChar1)
                  in andThen (slice lastLine 0 endChar2) (\<lambda>tail.
                     Inr (head @ NL @ concat (map (\<lambda>l. l @ NL) middle) @ tail)))))))"

subsection \<open>findSymbolContainingPosition\<close>

definition posInRange :: "Range \<Rightarrow> Position \<Rightarrow> bool" where
  "posInRange symRange targetPos =
     (let posInLineRange = (Line targetPos \<ge> Line (Start symRange) \<and>
                            Line targetPos \<le> Line (End symRange))
      in if posInLineRange then
           (if Line targetPos = Line (Start symRange) \<and>
               Character targetPos < Character (Start symRange) then False
            else if Line targetPos = Line (End symRange) \<and>
               Character targetPos > Character (End symRange) then False
            else True)
         else False)"

text \<open>The subtractions are \<open>uint32\<close> subtractions: they wrap around.\<close>

definition isBetter :: "Range \<Rightarrow> DocumentSymbol option \<Rightarrow> bool" where
  "isBetter symRange bestMatch =
     (case bestMatch of
        None \<Rightarrow> True
      | Some best \<Rightarrow>
          (Line (End symRange) - Line (Start symRange)
             < Line (End (SymRange best)) - Line (Start (SymRange best))) \<or>
          ((Line (End symRange) - Line (Start symRange)
             = Line (End (SymRange best)) - Line (Start (SymRange best))) \<and>
           (Character (End symRange) - Character (Start symRange)
             < Character (End (SymRange best)) - Character (Start (SymRange best)))))"

text \<open>
  The loop of \<open>findSymbolContainingPosition\<close> over \<open>symbols\<close>, with the local
  \<open>bestMatch\<close> as an argument (\<open>None\<close> is the nil pointer). The call on the children
  starts with its own \<open>bestMatch = nil\<close>. The \<open>level\<close> argument only indents the log.
\<close>

function findSymbolLoop ::
  "DocumentSymbolResult list \<Rightarrow> Position \<Rightarrow> DocumentSymbol option \<Rightarrow> DocumentSymbol option" where
  "findSymbolLoop [] targetPos bestMatch = bestMatch"
| "findSymbolLoop (SymInfo si # symbols) targetPos bestMatch =
     findSymbolLoop symbols targetPos bestMatch"
| "findSymbolLoop (DocSym ds # symbols) targetPos bestMatch =
     (if posInRange (SymRange ds) targetPos then
        (case (if length (Children ds) > 0
               then findSymbolLoop (map DocSym (Children ds)) targetPos None
               else None) of
           Some childMatch \<Rightarrow> findSymbolLoop symbols targetPos (Some childMatch)
         | None \<Rightarrow>
             findSymbolLoop symbols targetPos
               (if isBetter (SymRange ds) bestMatch then Some ds else bestMatch))
      else findSymbolLoop symbols targetPos bestMatch)"
  by pat_completeness auto
termination
proof (relation "measure (\<lambda>(symbols, targetPos, bestMatch). sum_list (map resultCount symbols))")
  show "wf (measure (\<lambda>(symbols, targetPos, bestMatch). sum_list (map resultCount symbols)))"
    by simp
qed (use resultCount_children symbolCount_pos in \<open>auto simp: trans_less_add1 comp_def\<close>)

text \<open>The result pair \<open>(bestMatch, bestMatch != nil)\<close> is the option.\<close>

definition findSymbolContainingPosition ::
  "DocumentSymbolResult list \<Rightarrow> Position \<Rightarrow> DocumentSymbol option" where
  "findSymbolContainingPosition symbols targetPos = findSymbolLoop symbols targetPos None"

(*THEOREMS*)

section \<open>Properties of the watcher\<close>

lemmas strings_defs = Contains_def Index_def HasPrefix_def HasSuffix_def TrimPrefix_def SplitN2_def

subsection \<open>Glob test vectors\<close>

text \<open>
  C8: the glob evaluator \<open>matchesGlob\<close> satisfies the specified test vectors, whatever
  the host's \<open>filepath.Match\<close> does: \<open>**/*.go\<close> matches \<open>a/b/c.go\<close>,
  \<open>*.{go,mod,sum}\<close> matches \<open>go.sum\<close>, \<open>*.go\<close> matches \<open>main.go\<close> and does not
  match \<open>main.goo\<close>.
\<close>

theorem matchesGlob_test_vectors:
  "matchesGlob fpMatch ''**/*.go'' ''a/b/c.go'' \<and>
   matchesGlob fpMatch ''*.{go,mod,sum}'' ''go.sum'' \<and>
   matchesGlob fpMatch ''*.go'' ''main.go'' \<and>
   \<not> matchesGlob fpMatch ''*.go'' ''main.goo''"
  by (simp add: matchesGlob_def matchesSimpleGlob_def strings_defs Split.simps)

subsection \<open>Registrations\<close>

lemma firstMatch_find:
  "firstMatch fpMatch fpRel path regs =
     (case List.find (\<lambda>reg. matchesPattern fpMatch fpRel path (GlobPattern reg)) regs of
        None \<Rightarrow> (False, 0)
      | Some reg \<Rightarrow> (True, case Kind reg of None \<Rightarrow> allKinds | Some kind \<Rightarrow> kind))"
  by (induction regs) auto

text \<open>
  C6: \<open>isPathWatched\<close> answers (true, Create|Change|Delete) when there is no
  registration; otherwise it answers true with the mask of the first registration, in
  registration order, whose pattern matches the path (the full mask when that
  registration has no kind), and (false, 0) when no registration matches.
\<close>

theorem isPathWatched_first_registration:
  "isPathWatched fpMatch fpRel w path =
     (if registrations w = [] then (True, WatchCreate OR WatchChange OR WatchDelete)
      else case List.find (\<lambda>reg. matchesPattern fpMatch fpRel path (GlobPattern reg))
                  (registrations w) of
             None \<Rightarrow> (False, 0)
           | Some reg \<Rightarrow>
               (True, case Kind reg of
                        None \<Rightarrow> WatchCreate OR WatchChange OR WatchDelete
                      | Some kind \<Rightarrow> kind))"
proof -
  have full: "allKinds = WatchCreate OR WatchChange OR WatchDelete"
    by (simp add: allKinds_def WatchCreate_def WatchChange_def WatchDelete_def)
  show ?thesis
    unfolding isPathWatched_def firstMatch_find full by simp
qed

text \<open>
  C6, a concrete run: with the registrations \<open>*.mod\<close> (Delete), \<open>**/*.go\<close> (no kind)
  and \<open>*.go\<close> (Create), the path \<open>/ws/a/b.go\<close> is watched with the full mask 7 of the
  second registration, and \<open>/ws/a/b.rs\<close> is not watched.
\<close>

theorem isPathWatched_first_registration_witness:
  "isPathWatched (\<lambda>p s. Some False) relFails goWatcher ''/ws/a/b.go'' = (True, 7) \<and>
   isPathWatched (\<lambda>p s. Some False) relFails goWatcher ''/ws/a/b.rs'' = (False, 0) \<and>
   isPathWatched (\<lambda>p s. Some False) relFails plainWatcher ''/ws/a/b.rs'' = (True, 7)"
  unfolding isPathWatched_first_registration
  by (simp add: goWatcher_def plainWatcher_def matchesPattern_def matchesGlob_def
      matchesSimpleGlob_def strings_defs Split.simps Base_def
      WatchCreate_def WatchChange_def WatchDelete_def)

subsection \<open>Exclusion\<close>

lemma Base_last_elem:
  assumes "f \<noteq> []" and "CHR ''/'' \<notin> set f"
  shows "Base (d @ ''/'' @ f) = f"
proof -
  have a: "dropWhile (\<lambda>c. c = CHR ''/'') (rev f @ CHR ''/'' # rev d) = rev f @ CHR ''/'' # rev d"
    using assms by (cases "rev f") auto
  have b: "takeWhile (\<lambda>c. c \<noteq> CHR ''/'') (rev f @ CHR ''/'' # rev d) = rev f"
    using assms by (auto simp add: takeWhile_tail takeWhile_eq_all_conv[THEN iffD2])
  show ?thesis using assms by (simp add: Base_def a b)
qed

lemma Ext_last_elem: "CHR ''/'' \<notin> set f \<Longrightarrow> Ext (d @ ''/'' @ f) = Ext f"
  by (simp add: Ext_def takeWhile_tail)

lemma HasSuffix_last_elem: "f \<noteq> [] \<Longrightarrow> HasSuffix (d @ ''/'' @ f) ''~'' = HasSuffix f ''~''"
  by (cases f rule: rev_cases) (auto simp: HasSuffix_def)

text \<open>
  C7, as stated, fails: \<open>shouldExcludeFile\<close> never looks at the directories of the path.
  With no ignore file and a small file, \<open>/ws/node_modules/pkg/index.js\<close> is not excluded.
\<close>

theorem shouldExcludeFile_node_modules_counterexample:
  "\<not> shouldExcludeFile relFails statSmall plainWatcher ''/ws/node_modules/pkg/index.js''"
  by (simp add: shouldExcludeFile_def gitIgnored_def relFails_def statSmall_def plainWatcher_def
      Base_def Ext_def lowerByte_def HasPrefix_def HasSuffix_def excludedFileExtensions_def
      largeBinaryExtensions_def maxFileSize_def)

text \<open>
  C7, amended: the directory decision \<open>shouldExcludeDir\<close> is true for every directory
  whose last element is \<open>node_modules\<close>; the file decision \<open>shouldExcludeFile\<close> for a
  file \<open>f\<close> in a directory \<open>d\<close> (any directory, \<open>node_modules\<close> included) is decided by
  the ignore matcher, the name \<open>f\<close> alone (dot prefix, lower-cased extension in one of
  the two tables, trailing \<open>~\<close>) and the file's size (stat failure or more than 5 MiB),
  never by the names of the directories above it.
\<close>

theorem node_modules_exclusion:
  "shouldExcludeDir fpRel w (d @ ''/node_modules'') \<and>
   (f \<noteq> [] \<and> CHR ''/'' \<notin> set f \<longrightarrow>
    shouldExcludeFile fpRel stat w (d' @ ''/'' @ f) =
      (gitIgnored fpRel w (d' @ ''/'' @ f) \<or>
       (HasPrefix f ''.'' \<and> f \<noteq> ''.'' \<and> f \<noteq> ''..'') \<or>
       excludedFileExtensions (ToLower (Ext f)) \<or>
       largeBinaryExtensions (ToLower (Ext f)) \<or>
       HasSuffix f ''~'' \<or>
       (case stat (d' @ ''/'' @ f) of
          None \<Rightarrow> True
        | Some fileSize \<Rightarrow> fileSize > 5 * 1024 * 1024)))"
proof (intro conjI impI)
  show "shouldExcludeDir fpRel w (d @ ''/node_modules'')"
    using Base_last_elem [of "''node_modules''" d]
    by (simp add: shouldExcludeDir_def excludedDirNames_def Let_def)
next
  assume "f \<noteq> [] \<and> CHR ''/'' \<notin> set f"
  then have f: "f \<noteq> []" "CHR ''/'' \<notin> set f" by simp_all
  show "shouldExcludeFile fpRel stat w (d' @ ''/'' @ f) =
      (gitIgnored fpRel w (d' @ ''/'' @ f) \<or>
       (HasPrefix f ''.'' \<and> f \<noteq> ''.'' \<and> f \<noteq> ''..'') \<or>
       excludedFileExtensions (ToLower (Ext f)) \<or>
       largeBinaryExtensions (ToLower (Ext f)) \<or>
       HasSuffix f ''~'' \<or>
       (case stat (d' @ ''/'' @ f) of
          None \<Rightarrow> True
        | Some fileSize \<Rightarrow> fileSize > 5 * 1024 * 1024))"
    unfolding shouldExcludeFile_def Let_def
      Base_last_elem [OF f] Ext_last_elem [OF f(2)] HasSuffix_last_elem [OF f(1)]
    by (auto simp: maxFileSize_def split: option.splits)
qed

text \<open>
  C7, amended, a concrete run: the directory \<open>/ws/node_modules\<close> is excluded, the file
  \<open>index.js\<close> inside \<open>/ws/node_modules/pkg\<close> is not, the file \<open>IMG.PNG\<close> beside it is.
\<close>

theorem node_modules_exclusion_witness:
  "shouldExcludeDir relFails plainWatcher (''/ws'' @ ''/node_modules'') \<and>
   ''index.js'' \<noteq> [] \<and> CHR ''/'' \<notin> set ''index.js'' \<and>
   \<not> shouldExcludeFile relFails statSmall plainWatcher (''/ws/node_modules/pkg'' @ ''/'' @ ''index.js'') \<and>
   shouldExcludeFile relFails statSmall plainWatcher (''/ws/node_modules/pkg'' @ ''/'' @ ''IMG.PNG'')"
  using node_modules_exclusion [of relFails plainWatcher "''/ws''" "''index.js''" statSmall "''/ws/node_modules/pkg''"]
    node_modules_exclusion [of relFails plainWatcher "''/ws''" "''IMG.PNG''" statSmall "''/ws/node_modules/pkg''"]
  by (simp add: gitIgnored_def relFails_def statSmall_def plainWatcher_def
      Ext_def lowerByte_def HasPrefix_def HasSuffix_def excludedFileExtensions_def
      largeBinaryExtensions_def)

end
